theory Spec2Isabelle
  imports Main "HOL-Library.Sublist"
begin

section \<open>The per-node execution context\<close>

text \<open>
  A shallow embedding of \<^verbatim>\<open>ExecutionContext\<close>
  (\<^verbatim>\<open>packages/core/src/node-execution-context/execute-context.ts\<close>).
  The object's private fields are the fields of the record \<open>execution_context\<close>; a method that
  mutates a shared object (the run execution data, the abort signal, the logger) takes the
  context and returns it updated.  A \<^verbatim>\<open>throw\<close> is the \<open>Inl\<close> branch of a sum, a
  promise is the value it settles to.
\<close>

subsection \<open>JavaScript values at the boundary\<close>

text \<open>
  The errors the methods raise.  \<^verbatim>\<open>new ApplicationError(message, { extra })\<close> keeps its
  message and, where the source passes one, the \<^verbatim>\<open>extra\<close> object
  \<^verbatim>\<open>{ inputIndex, inputName }\<close>.  \<open>TypeError\<close> is what the runtime raises on a property
  read of \<^verbatim>\<open>undefined\<close>; \<open>ExternalError\<close> is an error of a collaborator whose code is
  outside this class (only its message is read here).
\<close>

datatype js_error =
    ApplicationError string "(int \<times> string) option"
  | TypeError string
  | ExternalError string

fun message :: "js_error \<Rightarrow> string" where
  "message (ApplicationError m extra) = m"
| "message (TypeError m) = m"
| "message (ExternalError m) = m"

text \<open>
  Reading \<^verbatim>\<open>xs[i]\<close> never raises: outside \<open>0 \<le> i < length\<close> the value is
  \<^verbatim>\<open>undefined\<close>.  Indices are JavaScript numbers; the model takes the integers among
  them, negative ones included.
\<close>

datatype 'a js_read = Undefined | Value 'a

definition js_index :: "'a list \<Rightarrow> int \<Rightarrow> 'a js_read" where
  "js_index xs i = (if 0 \<le> i \<and> i < int (length xs) then Value (xs ! nat i) else Undefined)"

text \<open>A settled promise: fulfilled with a value or rejected with an error.\<close>

datatype 'a settled = Fulfilled 'a | Rejected js_error

text \<open>
  \<^verbatim>\<open>p.then(f)\<close> runs \<open>f\<close> on the value of a fulfilled promise and passes a rejection
  through; \<^verbatim>\<open>p.catch(h)\<close> runs \<open>h\<close> on the error of a rejected promise, after which
  the derived promise is fulfilled, and passes a fulfilment through.  Both thread the state
  \<open>'s\<close> their callbacks act on.
\<close>

definition promise_then ::
  "'a settled \<times> 's \<Rightarrow> ('a \<Rightarrow> 's \<Rightarrow> 'b settled \<times> 's) \<Rightarrow> 'b settled \<times> 's" where
  "promise_then p f = (case p of (Fulfilled v, s) \<Rightarrow> f v s | (Rejected e, s) \<Rightarrow> (Rejected e, s))"

definition promise_catch ::
  "unit settled \<times> 's \<Rightarrow> (js_error \<Rightarrow> 's \<Rightarrow> 's) \<Rightarrow> unit settled \<times> 's" where
  "promise_catch p h = (case p of (Fulfilled v, s) \<Rightarrow> (Fulfilled v, s) | (Rejected e, s) \<Rightarrow> (Fulfilled (), h e s))"

subsection \<open>Data model\<close>

type_synonym timestamp = int

text \<open>
  \<^verbatim>\<open>IBinaryData\<close> as the context sees it: an opaque id into the binary store and metadata.
  \<^verbatim>\<open>INodeExecutionData\<close>: a JSON payload (never inspected here) and the binary properties
  by name, empty when the item has none.
\<close>

record binary_data =
  fileId :: nat
  mimeType :: string
  fileSize :: nat

record node_execution_data =
  json :: string
  binary :: "(string \<times> binary_data) list"

text \<open>
  \<^verbatim>\<open>ITaskDataConnections\<close>: channel name to the batches of its input slots; a slot is
  \<^verbatim>\<open>INodeExecutionData[] | null\<close>, \<open>None\<close> being \<^verbatim>\<open>null\<close>.  A channel is an own
  property of the object exactly when the map is defined on it.
\<close>

type_synonym task_data_connections = "string \<rightharpoonup> node_execution_data list option list"

record source_data =
  previousNode :: string
  previousNodeOutput :: nat
  previousNodeRun :: nat

type_synonym task_data_connections_source = "string \<rightharpoonup> source_data option list"

text \<open>\<^verbatim>\<open>IExecuteData\<close>: \<open>source\<close> is \<^verbatim>\<open>ITaskDataConnectionsSource | null\<close>.\<close>

record execute_data =
  data :: task_data_connections
  source :: "task_data_connections_source option"

text \<open>
  \<^verbatim>\<open>IRunExecutionData\<close>: \<open>runData\<close> maps a node name to its recorded runs (the type of one
  run, \<^verbatim>\<open>ITaskData\<close>, is the parameter \<open>'t\<close>), \<open>waitTill\<close> is the optional wake-up time.
  Every field the context never touches lives in the record's extension.
\<close>

record 't result_data =
  runData :: "string \<rightharpoonup> 't list"

record 't run_execution_data =
  resultData :: "'t result_data"
  waitTill :: "timestamp option"

record node =
  name :: string

record 'w workflow =
  workflow_id :: "string option"
  settings :: 'w

text \<open>
  \<^verbatim>\<open>IWorkflowExecuteAdditionalData\<close>: the execution id and the optional status setter of
  the engine, a callback on the engine's own state \<open>'e\<close>.
\<close>

record 'e additional_data =
  executionId :: "string option"
  setExecutionStatus :: "(string \<Rightarrow> 'e \<Rightarrow> 'e) option"

text \<open>
  An \<^verbatim>\<open>AbortSignal\<close> as an event target: its \<^verbatim>\<open>'abort'\<close> listeners in registration
  order.  A listener is a function object; the model writes it as the pair of its identity
  (a number) and the handler it captured, handlers being opaque callbacks named by number.
  \<open>nextListener\<close> is the identity the next function object gets.
\<close>

record abort_signal =
  listeners :: "(nat \<times> nat) list"
  nextListener :: nat

text \<open>What the outside world sees of a cancellation: a listener left the signal, a handler ran.\<close>

datatype event = ListenerRemoved nat | HandlerCalled nat nat

fun listener_of :: "event \<Rightarrow> nat" where
  "listener_of (ListenerRemoved fn) = fn"
| "listener_of (HandlerCalled fn handler) = fn"

text \<open>
  The context.  Beside the constructor's arguments it carries what its methods act on from
  outside: the engine's state, the warnings the logger received, the promises started and
  left unawaited (\<open>detached\<close>, with the state they settle to), and the trace of
  cancellation events.
\<close>

record ('t, 'e, 'w) execution_context =
  workflow :: "'w workflow"
  node :: node
  additionalData :: "'e additional_data"
  mode :: string
  runExecutionData :: "'t run_execution_data"
  runIndex :: nat
  connectionInputData :: "node_execution_data list"
  inputData :: task_data_connections
  executeData :: execute_data
  abortSignal :: "abort_signal option"
  engine :: 'e
  warnings :: "string list"
  detached :: "unit settled list"
  events :: "event list"

subsection \<open>Input addressing\<close>

text \<open>
  \<^verbatim>\<open>getInputData(inputIndex = 0, inputName = 'main')\<close>, lines 311-331.  The guard compares
  \<^verbatim>\<open>length < inputIndex\<close>; the read that follows is a plain array read.
\<close>

definition getInputData ::
  "('t, 'e, 'w) execution_context \<Rightarrow> int \<Rightarrow> string \<Rightarrow> js_error + node_execution_data list js_read" where
  "getInputData ctx inputIndex inputName =
     (case inputData ctx inputName of
        None \<Rightarrow> Inr (Value [])
      | Some slots \<Rightarrow>
          if int (length slots) < inputIndex
          then Inl (ApplicationError ''Could not get input with given index''
                      (Some (inputIndex, inputName)))
          else (case js_index slots inputIndex of
                  Value None \<Rightarrow>
                    Inl (ApplicationError ''Value of input was not set''
                           (Some (inputIndex, inputName)))
                | Value (Some batch) \<Rightarrow> Inr (Value batch)
                | Undefined \<Rightarrow> Inr Undefined))"

text \<open>
  \<^verbatim>\<open>getInputSourceData(inputIndex = 0, inputName = 'main')\<close>, lines 333-339.  With a
  source object present the method reads \<^verbatim>\<open>source[inputName][inputIndex]\<close> unguarded: a
  channel the source does not have makes the second read a \<open>TypeError\<close>, an index outside
  the array reads \<^verbatim>\<open>undefined\<close>.
\<close>

definition getInputSourceData ::
  "('t, 'e, 'w) execution_context \<Rightarrow> int \<Rightarrow> string \<Rightarrow> js_error + source_data option js_read" where
  "getInputSourceData ctx inputIndex inputName =
     (case source (executeData ctx) of
        None \<Rightarrow> Inl (ApplicationError ''Source data is missing'' None)
      | Some src \<Rightarrow>
          (case src inputName of
             None \<Rightarrow> Inl (TypeError ''Cannot read properties of undefined'')
           | Some slots \<Rightarrow> Inr (js_index slots inputIndex)))"

subsection \<open>Recording input and output data\<close>

text \<open>\<^verbatim>\<open>this.logger.warn(msg)\<close>: the logger keeps the warnings in the order received.\<close>

definition logger_warn :: "string \<Rightarrow> ('t, 'e, 'w) execution_context \<Rightarrow> ('t, 'e, 'w) execution_context" where
  "logger_warn msg ctx = ctx\<lparr>warnings := warnings ctx @ [msg]\<rparr>"

definition dquote :: string where
  "dquote = [CHR 0x22]"

text \<open>
  \<^verbatim>\<open>addExecutionDataFunctions\<close> is imported from \<^verbatim>\<open>@/NodeExecuteFunctions\<close> and is not
  part of this class: it is a parameter of the two methods below.  It receives the nine
  arguments of the call, returns a promise (the source chains \<^verbatim>\<open>.catch\<close> on its
  result) and may update the run execution data it was handed.
\<close>

type_synonym ('d, 't, 'e) add_execution_data_functions =
  "string \<Rightarrow> string \<Rightarrow> 'd \<Rightarrow> 't run_execution_data \<Rightarrow> string \<Rightarrow> 'e additional_data \<Rightarrow>
   string \<Rightarrow> nat \<Rightarrow> nat \<Rightarrow> unit settled \<times> 't run_execution_data"

text \<open>
  \<^verbatim>\<open>addInputData(connectionType, data)\<close>, lines 432-459.  The index is read from the run
  data before the recording call is made; the promise of that call gets a rejection
  handler and is left unawaited; the method returns \<^verbatim>\<open>{ index: currentNodeRunIndex }\<close>.
  The returned context is the one after the promise has settled.
\<close>

definition addInputData ::
  "('d, 't, 'e) add_execution_data_functions \<Rightarrow> ('t, 'e, 'w) execution_context \<Rightarrow> string \<Rightarrow> 'd \<Rightarrow>
   nat \<times> ('t, 'e, 'w) execution_context" where
  "addInputData addExecutionDataFunctions ctx connectionType d =
     (let nodeName = name (node ctx);
          currentNodeRunIndex =
            (case runData (resultData (runExecutionData ctx)) nodeName of
               None \<Rightarrow> 0
             | Some runs \<Rightarrow> length runs);
          (p, recorded) =
            addExecutionDataFunctions ''input'' (name (node ctx)) d (runExecutionData ctx)
              connectionType (additionalData ctx) (name (node ctx)) (runIndex ctx)
              currentNodeRunIndex;
          (q, ctx') =
            promise_catch (p, ctx\<lparr>runExecutionData := recorded\<rparr>)
              (\<lambda>error. logger_warn
                 (''There was a problem logging input data of node '' @ dquote @
                  name (node ctx) @ dquote @ '': '' @ message error))
      in (currentNodeRunIndex, ctx'\<lparr>detached := detached ctx' @ [q]\<rparr>))"

text \<open>
  \<^verbatim>\<open>addOutputData(connectionType, currentNodeRunIndex, data)\<close>, lines 461-481: the same
  call with \<^verbatim>\<open>'output'\<close> and the caller's index; the method returns nothing.
\<close>

definition addOutputData ::
  "('d, 't, 'e) add_execution_data_functions \<Rightarrow> ('t, 'e, 'w) execution_context \<Rightarrow> string \<Rightarrow> nat \<Rightarrow> 'd \<Rightarrow>
   ('t, 'e, 'w) execution_context" where
  "addOutputData addExecutionDataFunctions ctx connectionType currentNodeRunIndex d =
     (let (p, recorded) =
            addExecutionDataFunctions ''output'' (name (node ctx)) d (runExecutionData ctx)
              connectionType (additionalData ctx) (name (node ctx)) (runIndex ctx)
              currentNodeRunIndex;
          (q, ctx') =
            promise_catch (p, ctx\<lparr>runExecutionData := recorded\<rparr>)
              (\<lambda>error. logger_warn
                 (''There was a problem logging output data of node '' @ dquote @
                  name (node ctx) @ dquote @ '': '' @ message error))
      in ctx'\<lparr>detached := detached ctx' @ [q]\<rparr>)"

subsection \<open>Waiting\<close>

text \<open>
  \<^verbatim>\<open>putExecutionToWait(waitTill)\<close>, lines 382-387: one assignment to the run execution
  data, then the status setter is called with \<^verbatim>\<open>'waiting'\<close> if the additional data has
  one.  The setter is the engine's and acts on the engine's state.
\<close>

definition putExecutionToWait ::
  "('t, 'e, 'w) execution_context \<Rightarrow> timestamp \<Rightarrow> ('t, 'e, 'w) execution_context" where
  "putExecutionToWait ctx t =
     (let ctx' = ctx\<lparr>runExecutionData := (runExecutionData ctx)\<lparr>waitTill := Some t\<rparr>\<rparr>
      in case setExecutionStatus (additionalData ctx') of
           None \<Rightarrow> ctx'
         | Some setter \<Rightarrow> ctx'\<lparr>engine := setter ''waiting'' (engine ctx')\<rparr>)"

subsection \<open>Cancellation\<close>

text \<open>
  The event target's side, for the \<^verbatim>\<open>'abort'\<close> listeners this class registers.
  \<^verbatim>\<open>addEventListener\<close> appends a function object unless it is registered already,
  \<^verbatim>\<open>removeEventListener\<close> takes it out; both go by the object's identity.
\<close>

definition addEventListener :: "nat \<times> nat \<Rightarrow> abort_signal \<Rightarrow> abort_signal" where
  "addEventListener fn sig =
     (if fst fn \<in> fst ` set (listeners sig) then sig
      else sig\<lparr>listeners := listeners sig @ [fn]\<rparr>)"

definition removeEventListener :: "nat \<times> nat \<Rightarrow> abort_signal \<Rightarrow> abort_signal" where
  "removeEventListener fn sig = sig\<lparr>listeners := filter (\<lambda>l. fst l \<noteq> fst fn) (listeners sig)\<rparr>"

definition registered :: "nat \<Rightarrow> ('t, 'e, 'w) execution_context \<Rightarrow> bool" where
  "registered i ctx =
     (case abortSignal ctx of None \<Rightarrow> False | Some sig \<Rightarrow> i \<in> fst ` set (listeners sig))"

text \<open>\<^verbatim>\<open>getExecutionCancelSignal()\<close>, lines 172-174; \<open>None\<close> is \<^verbatim>\<open>undefined\<close>.\<close>

definition getExecutionCancelSignal :: "('t, 'e, 'w) execution_context \<Rightarrow> abort_signal option" where
  "getExecutionCancelSignal ctx = abortSignal ctx"

text \<open>
  The body of the closure \<^verbatim>\<open>fn\<close> of lines 178-181: first
  \<^verbatim>\<open>this.abortSignal?.removeEventListener('abort', fn)\<close>, then \<^verbatim>\<open>handler()\<close>.  The
  handler is opaque; its call is recorded in the trace.
\<close>

definition cancellation_listener ::
  "nat \<times> nat \<Rightarrow> ('t, 'e, 'w) execution_context \<Rightarrow> ('t, 'e, 'w) execution_context" where
  "cancellation_listener fn ctx =
     (let ctx' =
            (case abortSignal ctx of
               None \<Rightarrow> ctx
             | Some sig \<Rightarrow>
                 ctx\<lparr>abortSignal := Some (removeEventListener fn sig),
                     events := events ctx @ [ListenerRemoved (fst fn)]\<rparr>)
      in ctx'\<lparr>events := events ctx' @ [HandlerCalled (fst fn) (snd fn)]\<rparr>)"

text \<open>
  \<^verbatim>\<open>onExecutionCancellation(handler)\<close>, lines 177-183: a new closure is built and, if
  there is a signal, registered on it.  Every call builds a function object of its own; the
  signal gives it the next unused identity.  Without a signal the optional call does
  nothing and the closure is dropped.
\<close>

definition onExecutionCancellation ::
  "('t, 'e, 'w) execution_context \<Rightarrow> nat \<Rightarrow> ('t, 'e, 'w) execution_context" where
  "onExecutionCancellation ctx handler =
     (case abortSignal ctx of
        None \<Rightarrow> ctx
      | Some sig \<Rightarrow>
          (let fn = (nextListener sig, handler)
           in ctx\<lparr>abortSignal :=
                    Some (addEventListener fn (sig\<lparr>nextListener := Suc (nextListener sig)\<rparr>))\<rparr>))"

text \<open>
  The signal firing: the event target walks the listeners it had when the dispatch began
  and calls each one that is still registered when its turn comes.
\<close>

fun invoke_listeners ::
  "(nat \<times> nat) list \<Rightarrow> ('t, 'e, 'w) execution_context \<Rightarrow> ('t, 'e, 'w) execution_context" where
  "invoke_listeners [] ctx = ctx"
| "invoke_listeners (fn # rest) ctx =
     invoke_listeners rest (if registered (fst fn) ctx then cancellation_listener fn ctx else ctx)"

definition fire_abort :: "('t, 'e, 'w) execution_context \<Rightarrow> ('t, 'e, 'w) execution_context" where
  "fire_abort ctx =
     (case abortSignal ctx of None \<Rightarrow> ctx | Some sig \<Rightarrow> invoke_listeners (listeners sig) ctx)"

text \<open>What the trace says about one listener.\<close>

definition events_of :: "nat \<Rightarrow> ('t, 'e, 'w) execution_context \<Rightarrow> event list" where
  "events_of i ctx = filter (\<lambda>e. listener_of e = i) (events ctx)"

text \<open>
  Function identities are fresh: every listener on the signal and every listener in the
  trace was numbered before \<open>nextListener\<close>.
\<close>

definition identities_fresh :: "('t, 'e, 'w) execution_context \<Rightarrow> bool" where
  "identities_fresh ctx =
     (case abortSignal ctx of
        None \<Rightarrow> True
      | Some sig \<Rightarrow>
          list_all (\<lambda>l. fst l < nextListener sig) (listeners sig) \<and>
          list_all (\<lambda>e. listener_of e < nextListener sig) (events ctx))"

subsection \<open>Sub-workflow invocation\<close>

text \<open>
  \<^verbatim>\<open>executeWorkflow(workflowInfo, inputData?, parentCallbackManager?)\<close>, lines 230-251.
  Two collaborators are outside this class and are parameters here: the invoker
  \<^verbatim>\<open>additionalData.executeWorkflow\<close>, called with the workflow info, the additional data
  and the options object (parent workflow id, input data, parent settings, node, callback
  manager), and \<^verbatim>\<open>binaryDataService.duplicateBinaryData\<close>, called in the \<^verbatim>\<open>.then\<close>
  with the workflow id, the execution id and the invoker's result.  Both return promises
  and act on the world \<open>'s\<close> outside the context (the binary store among it).  The
  argument \<^verbatim>\<open>inputData\<close> is written \<open>items\<close>, the name being taken by the field.
\<close>

definition executeWorkflow ::
  "('i \<Rightarrow> 'e additional_data \<Rightarrow> string option \<Rightarrow> node_execution_data list option \<Rightarrow> 'w \<Rightarrow> node \<Rightarrow>
      'c option \<Rightarrow> 's \<Rightarrow> 'r settled \<times> 's) \<Rightarrow>
   (string option \<Rightarrow> string option \<Rightarrow> 'r \<Rightarrow> 's \<Rightarrow> 'r settled \<times> 's) \<Rightarrow>
   ('t, 'e, 'w) execution_context \<Rightarrow> 'i \<Rightarrow> node_execution_data list option \<Rightarrow> 'c option \<Rightarrow> 's \<Rightarrow>
   'r settled \<times> 's" where
  "executeWorkflow invoker duplicate ctx workflowInfo items parentCallbackManager world =
     promise_then
       (invoker workflowInfo (additionalData ctx) (workflow_id (workflow ctx)) items
          (settings (workflow ctx)) (node ctx) parentCallbackManager world)
       (\<lambda>result. duplicate (workflow_id (workflow ctx)) (executionId (additionalData ctx)) result)"

subsection \<open>The binary data store\<close>

text \<open>
  Modelled from the spec: the Binary Data Store and its duplicate operation
  (\<^verbatim>\<open>BinaryDataService.duplicateBinaryData\<close>, whose code is not among the sources).  The
  spec: payloads live in the store under opaque ids and are scoped to an execution id;
  duplicating a reference yields a new id, distinct from the original, that resolves to
  byte-identical content under the parent execution's store; every reference in the
  sub-workflow's output is duplicated.  A file records the workflow and execution it
  belongs to and its bytes; the id of a file is its position in the store.
\<close>

record stored_file =
  owner_workflow :: "string option"
  owner_execution :: "string option"
  content :: string

type_synonym binary_store = "stored_file list"

text \<open>
  Modelled from the spec: duplicating one reference.  The copy gets the next free id, the
  given owners and the original's bytes; the reference returned keeps the metadata.  The
  spec does not say what a reference that resolves to nothing does; here the promise rejects.
\<close>

definition duplicate_reference ::
  "string option \<Rightarrow> string option \<Rightarrow> binary_data \<Rightarrow> binary_store \<Rightarrow> binary_data settled \<times> binary_store" where
  "duplicate_reference workflowId executionId' r store =
     (if fileId r < length store
      then (Fulfilled (r\<lparr>fileId := length store\<rparr>),
            store @ [\<lparr>owner_workflow = workflowId, owner_execution = executionId',
                      content = content (store ! fileId r)\<rparr>])
      else (Rejected (ExternalError ''Binary data not found''), store))"

text \<open>Running a promise-returning step over a list, left to right, stopping at a rejection.\<close>

fun traverse :: "('a \<Rightarrow> 's \<Rightarrow> 'a settled \<times> 's) \<Rightarrow> 'a list \<Rightarrow> 's \<Rightarrow> 'a list settled \<times> 's" where
  "traverse f [] s = (Fulfilled [], s)"
| "traverse f (x # xs) s =
     promise_then (f x s)
       (\<lambda>y s'. promise_then (traverse f xs s') (\<lambda>ys s''. (Fulfilled (y # ys), s'')))"

text \<open>
  Modelled from the spec: duplication of one named binary property of an item, and of all
  properties of one item; the property names and the JSON payload are kept.
\<close>

definition duplicate_property ::
  "string option \<Rightarrow> string option \<Rightarrow> string \<times> binary_data \<Rightarrow> binary_store \<Rightarrow>
   (string \<times> binary_data) settled \<times> binary_store" where
  "duplicate_property workflowId executionId' kv store =
     promise_then (duplicate_reference workflowId executionId' (snd kv) store)
       (\<lambda>r s. (Fulfilled (fst kv, r), s))"

definition duplicate_item ::
  "string option \<Rightarrow> string option \<Rightarrow> node_execution_data \<Rightarrow> binary_store \<Rightarrow>
   node_execution_data settled \<times> binary_store" where
  "duplicate_item workflowId executionId' item store =
     promise_then (traverse (duplicate_property workflowId executionId') (binary item) store)
       (\<lambda>b s. (Fulfilled (item\<lparr>binary := b\<rparr>), s))"

text \<open>
  Modelled from the spec: \<^verbatim>\<open>duplicateBinaryData(workflowId, executionId, result)\<close> on the
  output of a sub-workflow, a list of item batches: every reference of every item, in order.
\<close>

definition duplicateBinaryData ::
  "string option \<Rightarrow> string option \<Rightarrow> node_execution_data list list \<Rightarrow> binary_store \<Rightarrow>
   node_execution_data list list settled \<times> binary_store" where
  "duplicateBinaryData workflowId executionId' result store =
     traverse (traverse (duplicate_item workflowId executionId')) result store"

text \<open>
  Modelled from the spec: the references an output holds, when all of them resolve in a
  store, and what the spec asks of a duplicate \<open>r'\<close> of \<open>r\<close>: a new id, distinct from
  the original, that resolves in the store afterwards to a file of the given workflow and
  execution with the bytes the original had before.
\<close>

definition references :: "node_execution_data list list \<Rightarrow> binary_data list" where
  "references result = concat (map (\<lambda>batch. concat (map (\<lambda>item. map snd (binary item)) batch)) result)"

definition resolvable :: "binary_store \<Rightarrow> node_execution_data list list \<Rightarrow> bool" where
  "resolvable store result = list_all (\<lambda>r. fileId r < length store) (references result)"

definition rehomed ::
  "string option \<Rightarrow> string option \<Rightarrow> binary_store \<Rightarrow> binary_store \<Rightarrow> binary_data \<Rightarrow> binary_data \<Rightarrow> bool" where
  "rehomed workflowId executionId' before after r r' =
     (fileId r' \<noteq> fileId r \<and> length before \<le> fileId r' \<and> fileId r' < length after \<and>
      after ! fileId r' =
        \<lparr>owner_workflow = workflowId, owner_execution = executionId',
          content = content (before ! fileId r)\<rparr> \<and>
      mimeType r' = mimeType r \<and> fileSize r' = fileSize r)"

definition item_rehomed ::
  "string option \<Rightarrow> string option \<Rightarrow> binary_store \<Rightarrow> binary_store \<Rightarrow>
   node_execution_data \<Rightarrow> node_execution_data \<Rightarrow> bool" where
  "item_rehomed workflowId executionId' before after item item' =
     (json item' = json item \<and>
      list_all2 (\<lambda>kv kv'. fst kv' = fst kv \<and> rehomed workflowId executionId' before after (snd kv) (snd kv'))
        (binary item) (binary item'))"

subsection \<open>Example values\<close>

text \<open>
  A node \<open>Merge\<close> with two recorded runs, one filled and one \<^verbatim>\<open>null\<close> slot on
  \<open>main\<close>, an engine that keeps the statuses it is told, and a signal with no listener yet.
\<close>

definition item_a :: node_execution_data where
  "item_a = \<lparr>json = ''{a:1}'', binary = []\<rparr>"

definition example_context :: "(nat, string list, unit) execution_context" where
  "example_context =
     \<lparr>workflow = \<lparr>workflow_id = Some ''wf-parent'', settings = ()\<rparr>,
      node = \<lparr>name = ''Merge''\<rparr>,
      additionalData =
        \<lparr>executionId = Some ''exec-7'', setExecutionStatus = Some (\<lambda>status e. e @ [status])\<rparr>,
      mode = ''manual'',
      runExecutionData = \<lparr>resultData = \<lparr>runData = [''Merge'' \<mapsto> [10, 11]]\<rparr>, waitTill = None\<rparr>,
      runIndex = 0,
      connectionInputData = [item_a],
      inputData = [''main'' \<mapsto> [Some [item_a], None]],
      executeData =
        \<lparr>data = [''main'' \<mapsto> [Some [item_a], None]],
         source = Some [''main'' \<mapsto>
           [Some \<lparr>previousNode = ''Start'', previousNodeOutput = 0, previousNodeRun = 0\<rparr>, None]]\<rparr>,
      abortSignal = Some \<lparr>listeners = [], nextListener = 0\<rparr>,
      engine = [],
      warnings = [],
      detached = [],
      events = []\<rparr>"

text \<open>The same context built without a status setter and without a cancellation signal.\<close>

definition unattended_context :: "(nat, string list, unit) execution_context" where
  "unattended_context =
     example_context\<lparr>additionalData := \<lparr>executionId = None, setExecutionStatus = None\<rparr>,
                     abortSignal := None\<rparr>"

text \<open>A recording function whose promise always rejects.\<close>

definition failing_recorder :: "(unit, nat, string list) add_execution_data_functions" where
  "failing_recorder kind nodeName d r connectionType ad sourceNodeName sourceNodeRunIndex
      currentNodeRunIndex = (Rejected (ExternalError ''disk full''), r)"

text \<open>
  A sub-workflow that stores one file under its own execution and returns one item
  referring to it.
\<close>

definition child_file :: stored_file where
  "child_file =
     \<lparr>owner_workflow = Some ''wf-child'', owner_execution = Some ''exec-8'', content = ''%PDF-1.7''\<rparr>"

definition child_item :: node_execution_data where
  "child_item =
     \<lparr>json = ''{report:true}'',
      binary = [(''attachment'', \<lparr>fileId = 0, mimeType = ''application/pdf'', fileSize = 8\<rparr>)]\<rparr>"

definition child_invoker ::
  "unit \<Rightarrow> string list additional_data \<Rightarrow> string option \<Rightarrow> node_execution_data list option \<Rightarrow> unit \<Rightarrow>
   node \<Rightarrow> unit option \<Rightarrow> binary_store \<Rightarrow> node_execution_data list list settled \<times> binary_store" where
  "child_invoker workflowInfo ad parentWorkflowId items parentWorkflowSettings n
      parentCallbackManager store = (Fulfilled [[child_item]], store @ [child_file])"

section \<open>Properties\<close>

subsection \<open>Input addressing\<close>

text \<open>
  C2: for a channel present in the task data connections and an index addressing one of
  its slots, \<open>getInputData\<close> returns exactly the batch of that slot when the slot is not
  \<^verbatim>\<open>null\<close>, and raises the error \<open>Value of input was not set\<close> when it is.
\<close>

theorem getInputData_valid_slot:
  assumes "inputData ctx inputName = Some slots"
    and "0 \<le> inputIndex" and "inputIndex < int (length slots)"
  shows "getInputData ctx inputIndex inputName =
           (case slots ! nat inputIndex of
              Some batch \<Rightarrow> Inr (Value batch)
            | None \<Rightarrow>
                Inl (ApplicationError ''Value of input was not set'' (Some (inputIndex, inputName))))"
  using assms by (simp add: getInputData_def js_index_def split: option.split)

theorem getInputData_valid_slot_witness:
  "getInputData example_context 0 ''main'' = Inr (Value [item_a]) \<and>
   getInputData example_context 1 ''main'' =
     Inl (ApplicationError ''Value of input was not set'' (Some (1, ''main'')))"
  using getInputData_valid_slot [of example_context "''main''" "[Some [item_a], None]" 0]
        getInputData_valid_slot [of example_context "''main''" "[Some [item_a], None]" 1]
  by (simp add: example_context_def)

text \<open>
  An index beyond the number of slots is refused, and the error carries the index and the
  channel name.
\<close>

lemma getInputData_index_beyond_length:
  assumes "inputData ctx inputName = Some slots" and "int (length slots) < inputIndex"
  shows "getInputData ctx inputIndex inputName =
           Inl (ApplicationError ''Could not get input with given index''
                  (Some (inputIndex, inputName)))"
  using assms by (simp add: getInputData_def)

text \<open>
  An index equal to the number of slots passes the guard \<^verbatim>\<open>length < inputIndex\<close>, and
  the read one past the end of the array gives \<^verbatim>\<open>undefined\<close>, whatever the slots are.
\<close>

lemma getInputData_index_at_length:
  assumes "inputData ctx inputName = Some slots"
  shows "getInputData ctx (int (length slots)) inputName = Inr Undefined"
  using assms by (simp add: getInputData_def js_index_def)

text \<open>
  C3: for a connected channel and an index at or beyond the number of recorded batches,
  \<open>getInputData\<close> is to raise an addressing error carrying the index and the channel.
  The channel \<open>main\<close> of the example has two slots; at index 2 the method raises nothing
  and returns \<^verbatim>\<open>undefined\<close>.
\<close>

theorem getInputData_index_equals_length:
  "getInputData example_context 2 ''main'' = Inr Undefined"
  by (simp add: getInputData_def js_index_def example_context_def)

text \<open>
  C4: for a channel name that is not present in the task data connections, \<open>getInputData\<close>
  returns the empty sequence for every index and raises no error.
\<close>

theorem getInputData_unconnected:
  assumes "inputData ctx inputName = None"
  shows "getInputData ctx inputIndex inputName = Inr (Value [])"
  using assms by (simp add: getInputData_def)

theorem getInputData_unconnected_witness:
  "inputData example_context ''extra'' = None \<and>
   getInputData example_context 0 ''extra'' = Inr (Value [])"
  using getInputData_unconnected [of example_context "''extra''" 0]
  by (simp add: example_context_def)

text \<open>
  C8: \<open>getInputSourceData\<close> raises the error \<open>Source data is missing\<close> whenever the execute
  data has no source, and returns the entry recorded for the slot when the source is
  there and records that slot.
\<close>

theorem getInputSourceData_contract:
  "(source (executeData ctx) = None \<longrightarrow>
      getInputSourceData ctx inputIndex inputName =
        Inl (ApplicationError ''Source data is missing'' None)) \<and>
   (\<forall>src slots.
      source (executeData ctx) = Some src \<and> src inputName = Some slots \<and>
      0 \<le> inputIndex \<and> inputIndex < int (length slots) \<longrightarrow>
      getInputSourceData ctx inputIndex inputName = Inr (Value (slots ! nat inputIndex)))"
  by (simp add: getInputSourceData_def js_index_def)

theorem getInputSourceData_contract_witness:
  "getInputSourceData (example_context\<lparr>executeData := \<lparr>data = Map.empty, source = None\<rparr>\<rparr>) 0 ''main'' =
     Inl (ApplicationError ''Source data is missing'' None) \<and>
   getInputSourceData example_context 0 ''main'' =
     Inr (Value (Some \<lparr>previousNode = ''Start'', previousNodeOutput = 0, previousNodeRun = 0\<rparr>))"
  using getInputSourceData_contract
          [of "example_context\<lparr>executeData := \<lparr>data = Map.empty, source = None\<rparr>\<rparr>" 0 "''main''"]
        getInputSourceData_contract [of example_context 0 "''main''"]
  by (simp add: example_context_def)

subsection \<open>Recording input and output data\<close>

text \<open>
  C5: every call of \<open>addInputData\<close> returns as its index the number of runs recorded under
  this node's name in the run data when the call is made, zero when the node has no entry
  yet, whatever the recording function does afterwards.
\<close>

theorem addInputData_index:
  "fst (addInputData addExecutionDataFunctions ctx connectionType d) =
     (case runData (resultData (runExecutionData ctx)) (name (node ctx)) of
        None \<Rightarrow> 0
      | Some runs \<Rightarrow> length runs)"
  by (simp add: addInputData_def Let_def split: prod.split)

theorem addInputData_index_witness:
  "fst (addInputData failing_recorder example_context ''main'' ()) = 2 \<and>
   fst (addInputData failing_recorder (example_context\<lparr>node := \<lparr>name = ''Other''\<rparr>\<rparr>) ''main'' ()) = 0"
  using addInputData_index [of failing_recorder example_context "''main''" "()"]
    addInputData_index
      [of failing_recorder "example_context\<lparr>node := \<lparr>name = ''Other''\<rparr>\<rparr>" "''main''" "()"]
  by (simp add: example_context_def)

text \<open>
  C6: \<open>addInputData\<close> and \<open>addOutputData\<close> return normally whatever the recording
  function's promise settles to.  \<open>addInputData\<close> returns its index and \<open>addOutputData\<close>
  returns; the promise they leave behind is fulfilled, never rejected; and a rejection of
  the recording is one warning of the logger, naming the node and the error's message.
  Beyond that the context changes only by what the recording did to the run execution data.
\<close>

theorem add_data_failure_is_logged:
  "(let idx = (case runData (resultData (runExecutionData ctx)) (name (node ctx)) of
                 None \<Rightarrow> 0
               | Some runs \<Rightarrow> length runs);
        r = addExecutionDataFunctions ''input'' (name (node ctx)) d (runExecutionData ctx)
              connectionType (additionalData ctx) (name (node ctx)) (runIndex ctx) idx
    in addInputData addExecutionDataFunctions ctx connectionType d =
         (idx,
          ctx\<lparr>runExecutionData := snd r,
              warnings := warnings ctx @
                (case fst r of
                   Fulfilled u \<Rightarrow> []
                 | Rejected e \<Rightarrow>
                     [''There was a problem logging input data of node '' @ dquote @
                      name (node ctx) @ dquote @ '': '' @ message e]),
              detached := detached ctx @ [Fulfilled ()]\<rparr>)) \<and>
   (let r = addExecutionDataFunctions ''output'' (name (node ctx)) d (runExecutionData ctx)
              connectionType (additionalData ctx) (name (node ctx)) (runIndex ctx) i
    in addOutputData addExecutionDataFunctions ctx connectionType i d =
         ctx\<lparr>runExecutionData := snd r,
             warnings := warnings ctx @
               (case fst r of
                  Fulfilled u \<Rightarrow> []
                | Rejected e \<Rightarrow>
                    [''There was a problem logging output data of node '' @ dquote @
                     name (node ctx) @ dquote @ '': '' @ message e]),
             detached := detached ctx @ [Fulfilled ()]\<rparr>)"
  by (simp add: addInputData_def addOutputData_def promise_catch_def logger_warn_def Let_def
      split: prod.split settled.split)

theorem add_data_failure_is_logged_witness:
  "addInputData failing_recorder example_context ''main'' () =
     (2, example_context\<lparr>warnings :=
            [''There was a problem logging input data of node '' @ dquote @ ''Merge'' @ dquote @
             '': disk full''],
          detached := [Fulfilled ()]\<rparr>) \<and>
   addOutputData failing_recorder example_context ''main'' 2 () =
     example_context\<lparr>warnings :=
            [''There was a problem logging output data of node '' @ dquote @ ''Merge'' @ dquote @
             '': disk full''],
          detached := [Fulfilled ()]\<rparr>"
  using add_data_failure_is_logged
          [where ctx = example_context and addExecutionDataFunctions = failing_recorder
             and d = "()" and connectionType = "''main''" and i = 2]
  by (simp add: example_context_def failing_recorder_def)

subsection \<open>Waiting\<close>

text \<open>
  C7, as the code has it: for every timestamp \<open>t\<close>, \<open>putExecutionToWait\<close> sets the
  \<open>waitTill\<close> field of the run execution data to exactly \<open>t\<close> and leaves every other field
  of it unchanged; if the additional data has a status setter, the setter is called once
  with \<open>waiting\<close>, and if it has none, nothing is notified.  Nothing else of the context
  changes.
\<close>

theorem putExecutionToWait_effect:
  "putExecutionToWait ctx t =
     ctx\<lparr>runExecutionData := (runExecutionData ctx)\<lparr>waitTill := Some t\<rparr>,
         engine := (case setExecutionStatus (additionalData ctx) of
                      None \<Rightarrow> engine ctx
                    | Some setter \<Rightarrow> setter ''waiting'' (engine ctx))\<rparr> \<and>
   waitTill (runExecutionData (putExecutionToWait ctx t)) = Some t \<and>
   resultData (runExecutionData (putExecutionToWait ctx t)) = resultData (runExecutionData ctx) \<and>
   run_execution_data.more (runExecutionData (putExecutionToWait ctx t)) =
     run_execution_data.more (runExecutionData ctx)"
  by (simp add: putExecutionToWait_def Let_def split: option.split)

theorem putExecutionToWait_effect_witness:
  "waitTill (runExecutionData (putExecutionToWait example_context 1730000000000)) =
     Some 1730000000000 \<and>
   engine (putExecutionToWait example_context 1730000000000) = [''waiting'']"
  using putExecutionToWait_effect [of example_context 1730000000000]
  by (simp add: example_context_def)

text \<open>
  C7 as stated says the status setter is notified on every call.  In a context whose
  additional data has no setter the wait is recorded and the engine is told nothing.
\<close>

theorem putExecutionToWait_without_setter:
  "waitTill (runExecutionData (putExecutionToWait unattended_context 1730000000000)) =
     Some 1730000000000 \<and>
   engine (putExecutionToWait unattended_context 1730000000000) = []"
  by (simp add: putExecutionToWait_def unattended_context_def example_context_def)

subsection \<open>Cancellation\<close>

text \<open>
  Running the closure of a listener touches the registration and the trace of that
  listener only: another listener is neither removed nor reported.
\<close>

lemma listener_other:
  assumes "fst fn \<noteq> i"
  shows "events_of i (cancellation_listener fn ctx) = events_of i ctx"
    and "registered i (cancellation_listener fn ctx) = registered i ctx"
  using assms
  by (auto simp: cancellation_listener_def events_of_def registered_def removeEventListener_def
      Let_def split: option.splits)

lemma listener_self:
  assumes "registered (fst fn) ctx"
  shows "events_of (fst fn) (cancellation_listener fn ctx) =
           events_of (fst fn) ctx @ [ListenerRemoved (fst fn), HandlerCalled (fst fn) (snd fn)]"
    and "\<not> registered (fst fn) (cancellation_listener fn ctx)"
  using assms
  by (auto simp: cancellation_listener_def events_of_def registered_def removeEventListener_def
      Let_def split: option.splits)

lemma invoke_unregistered:
  assumes "\<not> registered i ctx"
  shows "events_of i (invoke_listeners ls ctx) = events_of i ctx \<and>
         \<not> registered i (invoke_listeners ls ctx)"
  using assms
proof (induction ls arbitrary: ctx)
  case Nil
  then show ?case by simp
next
  case (Cons fn rest)
  show ?case
  proof (cases "registered (fst fn) ctx")
    case True
    with Cons.prems have ne: "fst fn \<noteq> i" by auto
    have "\<not> registered i (cancellation_listener fn ctx)"
      using Cons.prems by (simp add: listener_other(2) [OF ne])
    from Cons.IH [OF this] True listener_other(1) [OF ne] show ?thesis by simp
  next
    case False
    with Cons.IH [OF Cons.prems] show ?thesis by simp
  qed
qed

lemma invoke_registered:
  assumes "registered i ctx" and "(i, h) \<in> set ls" and "\<forall>l \<in> set ls. fst l = i \<longrightarrow> snd l = h"
  shows "events_of i (invoke_listeners ls ctx) =
           events_of i ctx @ [ListenerRemoved i, HandlerCalled i h] \<and>
         \<not> registered i (invoke_listeners ls ctx)"
  using assms
proof (induction ls arbitrary: ctx)
  case Nil
  then show ?case by simp
next
  case (Cons fn rest)
  show ?case
  proof (cases "fst fn = i")
    case True
    with Cons.prems have fn: "fn = (i, h)" by (cases fn) auto
    from listener_self [of fn ctx] fn Cons.prems(1)
    have ev: "events_of i (cancellation_listener fn ctx) =
                events_of i ctx @ [ListenerRemoved i, HandlerCalled i h]"
      and un: "\<not> registered i (cancellation_listener fn ctx)" by simp_all
    from invoke_unregistered [OF un, of rest] ev fn Cons.prems(1) show ?thesis by simp
  next
    case False
    with Cons.prems have mem: "(i, h) \<in> set rest" by auto
    from Cons.prems have all: "\<forall>l \<in> set rest. fst l = i \<longrightarrow> snd l = h" by simp
    show ?thesis
    proof (cases "registered (fst fn) ctx")
      case True
      have "registered i (cancellation_listener fn ctx)"
        using Cons.prems(1) by (simp add: listener_other(2) [OF False])
      from Cons.IH [OF this mem all] True listener_other(1) [OF False] show ?thesis by simp
    next
      case no: False
      with Cons.IH [OF Cons.prems(1) mem all] show ?thesis by simp
    qed
  qed
qed

lemma fire_once_unregistered:
  assumes "\<not> registered i ctx"
  shows "events_of i (fire_abort ctx) = events_of i ctx \<and> \<not> registered i (fire_abort ctx)"
  using assms invoke_unregistered [OF assms] by (simp add: fire_abort_def split: option.split)

lemma fire_unregistered:
  assumes "\<not> registered i ctx"
  shows "events_of i ((fire_abort ^^ n) ctx) = events_of i ctx \<and>
         \<not> registered i ((fire_abort ^^ n) ctx)"
proof (induction n)
  case 0
  with assms show ?case by simp
next
  case (Suc n)
  let ?c = "(fire_abort ^^ n) ctx"
  from Suc have "\<not> registered i ?c" by simp
  from fire_once_unregistered [OF this] Suc show ?case by simp
qed

lemma registration:
  assumes "abortSignal ctx = Some sig" and "identities_fresh ctx"
  shows "abortSignal (onExecutionCancellation ctx handler) =
           Some \<lparr>listeners = listeners sig @ [(nextListener sig, handler)],
                 nextListener = Suc (nextListener sig)\<rparr>"
    and "events_of (nextListener sig) (onExecutionCancellation ctx handler) = []"
proof -
  from assms have "\<forall>l \<in> set (listeners sig). fst l < nextListener sig"
    by (simp add: identities_fresh_def list_all_iff)
  then have "nextListener sig \<notin> fst ` set (listeners sig)" by auto
  with assms(1) show "abortSignal (onExecutionCancellation ctx handler) =
           Some \<lparr>listeners = listeners sig @ [(nextListener sig, handler)],
                 nextListener = Suc (nextListener sig)\<rparr>"
    by (simp add: onExecutionCancellation_def addEventListener_def Let_def)
  from assms have "\<forall>e \<in> set (events ctx). listener_of e < nextListener sig"
    by (simp add: identities_fresh_def list_all_iff)
  then have "filter (\<lambda>e. listener_of e = nextListener sig) (events ctx) = []"
    by (auto simp: filter_empty_conv)
  with assms(1) show "events_of (nextListener sig) (onExecutionCancellation ctx handler) = []"
    by (simp add: onExecutionCancellation_def events_of_def Let_def)
qed

text \<open>
  Fresh identities are an invariant: registering a handler and firing the signal keep them.
\<close>

lemma identities_fresh_register:
  assumes "identities_fresh ctx"
  shows "identities_fresh (onExecutionCancellation ctx handler)"
  using assms
  by (auto simp: identities_fresh_def onExecutionCancellation_def addEventListener_def Let_def
      list_all_iff less_Suc_eq split: option.splits)

lemma identities_fresh_listener:
  assumes "abortSignal ctx = Some sig" and "identities_fresh ctx" and "fst fn < nextListener sig"
  shows "identities_fresh (cancellation_listener fn ctx) \<and>
         (\<exists>sig'. abortSignal (cancellation_listener fn ctx) = Some sig' \<and>
            nextListener sig' = nextListener sig \<and> set (listeners sig') \<subseteq> set (listeners sig))"
  using assms
  by (auto simp: identities_fresh_def cancellation_listener_def removeEventListener_def Let_def
      list_all_iff)

lemma identities_fresh_invoke:
  assumes "abortSignal ctx = Some sig" and "identities_fresh ctx"
    and "\<forall>l \<in> set ls. fst l < nextListener sig"
  shows "identities_fresh (invoke_listeners ls ctx)"
  using assms
proof (induction ls arbitrary: ctx sig)
  case Nil
  then show ?case by simp
next
  case (Cons fn rest)
  show ?case
  proof (cases "registered (fst fn) ctx")
    case True
    from Cons.prems have "fst fn < nextListener sig" by simp
    from identities_fresh_listener [OF Cons.prems(1,2) this]
    obtain sig' where s: "identities_fresh (cancellation_listener fn ctx)"
      "abortSignal (cancellation_listener fn ctx) = Some sig'" "nextListener sig' = nextListener sig"
      by auto
    from Cons.prems(3) s(3) have "\<forall>l \<in> set rest. fst l < nextListener sig'" by simp
    from Cons.IH [OF s(2) s(1) this] True show ?thesis by simp
  next
    case False
    from Cons.prems(3) have "\<forall>l \<in> set rest. fst l < nextListener sig" by simp
    from Cons.IH [OF Cons.prems(1,2) this] False show ?thesis by simp
  qed
qed

lemma identities_fresh_fire:
  assumes "identities_fresh ctx"
  shows "identities_fresh (fire_abort ctx)"
proof (cases "abortSignal ctx")
  case None
  with assms show ?thesis by (simp add: fire_abort_def)
next
  case (Some sig)
  with assms have "\<forall>l \<in> set (listeners sig). fst l < nextListener sig"
    by (simp add: identities_fresh_def list_all_iff)
  from identities_fresh_invoke [OF Some assms this] Some show ?thesis
    by (simp add: fire_abort_def)
qed

text \<open>
  C9: a handler registered through \<open>onExecutionCancellation\<close> runs at most once.  With a
  signal present, the new listener is registered and its trace is empty until the signal
  fires; the first firing adds the listener's removal from the signal and then the
  handler's call, in this order, and leaves the listener unregistered; every later firing
  adds nothing for it.
\<close>

theorem cancellation_handler_runs_once:
  assumes "abortSignal ctx = Some sig" and "identities_fresh ctx"
  shows "events_of (nextListener sig) ((fire_abort ^^ n) (onExecutionCancellation ctx handler)) =
           (if n = 0 then []
            else [ListenerRemoved (nextListener sig), HandlerCalled (nextListener sig) handler]) \<and>
         registered (nextListener sig) ((fire_abort ^^ n) (onExecutionCancellation ctx handler)) =
           (n = 0)"
proof (cases n)
  case 0
  from registration(1) [OF assms, of handler]
  have "registered (nextListener sig) (onExecutionCancellation ctx handler)"
    by (simp add: registered_def)
  with 0 registration(2) [OF assms] show ?thesis by simp
next
  case (Suc m)
  let ?i = "nextListener sig"
  let ?c = "onExecutionCancellation ctx handler"
  let ?ls = "listeners sig @ [(?i, handler)]"
  note sig' = registration(1) [OF assms, of handler]
  from assms have old: "\<forall>l \<in> set (listeners sig). fst l < ?i"
    by (simp add: identities_fresh_def list_all_iff)
  have reg: "registered ?i ?c"
    using sig' by (simp add: registered_def)
  have mem: "(?i, handler) \<in> set ?ls" by simp
  have uniq: "\<forall>l \<in> set ?ls. fst l = ?i \<longrightarrow> snd l = handler"
    using old by auto
  have first: "events_of ?i (fire_abort ?c) =
                 events_of ?i ?c @ [ListenerRemoved ?i, HandlerCalled ?i handler] \<and>
               \<not> registered ?i (fire_abort ?c)"
    using invoke_registered [OF reg mem uniq] sig' by (simp add: fire_abort_def)
  with fire_unregistered [of ?i "fire_abort ?c" m]
  have "events_of ?i ((fire_abort ^^ m) (fire_abort ?c)) =
          [ListenerRemoved ?i, HandlerCalled ?i handler] \<and>
        \<not> registered ?i ((fire_abort ^^ m) (fire_abort ?c))"
    using registration(2) [OF assms, of handler] by simp
  with Suc show ?thesis by (simp add: funpow_swap1)
qed

theorem cancellation_handler_runs_once_witness:
  "events_of 0 (onExecutionCancellation example_context 7) = [] \<and>
   registered 0 (onExecutionCancellation example_context 7) \<and>
   events_of 0 (fire_abort (onExecutionCancellation example_context 7)) =
     [ListenerRemoved 0, HandlerCalled 0 7] \<and>
   \<not> registered 0 (fire_abort (onExecutionCancellation example_context 7)) \<and>
   events_of 0 (fire_abort (fire_abort (onExecutionCancellation example_context 7))) =
     [ListenerRemoved 0, HandlerCalled 0 7]"
proof -
  have s: "abortSignal example_context = Some \<lparr>listeners = [], nextListener = 0\<rparr>"
    by (simp add: example_context_def)
  have f: "identities_fresh example_context"
    by (simp add: identities_fresh_def example_context_def)
  from cancellation_handler_runs_once [OF s f, of 0 7]
       cancellation_handler_runs_once [OF s f, of 1 7]
       cancellation_handler_runs_once [OF s f, of 2 7]
  show ?thesis by (simp add: numeral_2_eq_2)
qed

text \<open>
  C10: in a context built without a cancellation signal, \<open>onExecutionCancellation\<close>
  changes nothing and raises nothing, \<open>getExecutionCancelSignal\<close> returns \<^verbatim>\<open>undefined\<close>,
  and no firing ever runs the handler: the trace stays as it was.
\<close>

theorem no_signal_no_cancellation:
  assumes "abortSignal ctx = None"
  shows "onExecutionCancellation ctx handler = ctx \<and>
         getExecutionCancelSignal ctx = None \<and>
         (fire_abort ^^ n) (onExecutionCancellation ctx handler) = ctx \<and>
         events ((fire_abort ^^ n) (onExecutionCancellation ctx handler)) = events ctx"
proof -
  have reg: "onExecutionCancellation ctx handler = ctx"
    using assms by (simp add: onExecutionCancellation_def)
  have fire: "fire_abort ctx = ctx"
    using assms by (simp add: fire_abort_def)
  have "(fire_abort ^^ n) ctx = ctx"
    by (induction n) (simp_all add: fire)
  with reg assms show ?thesis
    by (simp add: getExecutionCancelSignal_def)
qed

theorem no_signal_no_cancellation_witness:
  "abortSignal unattended_context = None \<and>
   onExecutionCancellation unattended_context 5 = unattended_context \<and>
   getExecutionCancelSignal unattended_context = None \<and>
   events ((fire_abort ^^ 2) (onExecutionCancellation unattended_context 5)) = []"
proof -
  have h: "abortSignal unattended_context = None"
    by (simp add: unattended_context_def)
  have e: "events unattended_context = []"
    by (simp add: unattended_context_def example_context_def)
  from no_signal_no_cancellation [OF h, of 5 2] h e show ?thesis
    by metis
qed

subsection \<open>Sub-workflow invocation\<close>

text \<open>A failed nested execution is passed through; the duplication does not run.\<close>

lemma executeWorkflow_failure:
  assumes "invoker workflowInfo (additionalData ctx) (workflow_id (workflow ctx)) items
             (settings (workflow ctx)) (node ctx) parentCallbackManager world =
           (Rejected e, world')"
  shows "executeWorkflow invoker duplicate ctx workflowInfo items parentCallbackManager world =
           (Rejected e, world')"
  using assms by (simp add: executeWorkflow_def promise_then_def)

text \<open>
  The store only grows during a duplication, so what holds of a duplicate once holds of
  it in every later store.
\<close>

lemma rehomed_stable:
  assumes "rehomed w x before after r r'" and "prefix after after'"
  shows "rehomed w x before after' r r'"
  using assms by (auto simp: rehomed_def prefix_def nth_append)

lemma item_rehomed_stable:
  assumes "item_rehomed w x before after item item'" and "prefix after after'"
  shows "item_rehomed w x before after' item item'"
  using assms unfolding item_rehomed_def
  by (auto elim!: list_all2_mono intro: rehomed_stable)

lemma traverse_rehomes:
  assumes step: "\<And>a s. a \<in> set xs \<Longrightarrow> prefix before s \<Longrightarrow>
                   \<exists>b s'. f a s = (Fulfilled b, s') \<and> prefix s s' \<and> R s' a b"
    and stable: "\<And>s s' a b. R s a b \<Longrightarrow> prefix s s' \<Longrightarrow> R s' a b"
    and start: "prefix before s"
  shows "\<exists>ys s'. traverse f xs s = (Fulfilled ys, s') \<and> prefix s s' \<and> list_all2 (R s') xs ys"
  using step start
proof (induction xs arbitrary: s)
  case Nil
  then show ?case by simp
next
  case (Cons a xs)
  from Cons.prems(1) [of a s] Cons.prems(2)
  obtain b s1 where b: "f a s = (Fulfilled b, s1)" "prefix s s1" "R s1 a b" by auto
  from b(2) Cons.prems(2) have p1: "prefix before s1" by (rule prefix_order.trans [rotated])
  have "\<exists>ys s'. traverse f xs s1 = (Fulfilled ys, s') \<and> prefix s1 s' \<and> list_all2 (R s') xs ys"
    using Cons.prems(1) p1 by (intro Cons.IH) auto
  then obtain ys s2 where ys: "traverse f xs s1 = (Fulfilled ys, s2)" "prefix s1 s2"
      "list_all2 (R s2) xs ys" by auto
  from b(2) ys(2) have "prefix s s2" by (rule prefix_order.trans)
  moreover from stable [OF b(3) ys(2)] ys(3) have "list_all2 (R s2) (a # xs) (b # ys)" by simp
  moreover from b(1) ys(1) have "traverse f (a # xs) s = (Fulfilled (b # ys), s2)"
    by (simp add: promise_then_def)
  ultimately show ?case by blast
qed

lemma duplicate_property_rehomes:
  assumes "fileId (snd kv) < length before" and "prefix before s"
  shows "\<exists>kv' s'. duplicate_property w x kv s = (Fulfilled kv', s') \<and> prefix s s' \<and>
           fst kv' = fst kv \<and> rehomed w x before s' (snd kv) (snd kv')"
  using assms
  by (auto simp: duplicate_property_def duplicate_reference_def promise_then_def rehomed_def
      prefix_def nth_append)

lemma duplicate_item_rehomes:
  assumes "list_all (\<lambda>kv. fileId (snd kv) < length before) (binary item)" and "prefix before s"
  shows "\<exists>item' s'. duplicate_item w x item s = (Fulfilled item', s') \<and> prefix s s' \<and>
           item_rehomed w x before s' item item'"
proof -
  let ?R = "\<lambda>s' kv kv'. fst kv' = fst kv \<and> rehomed w x before s' (snd kv) (snd kv')"
  have "\<exists>b s'. traverse (duplicate_property w x) (binary item) s = (Fulfilled b, s') \<and>
          prefix s s' \<and> list_all2 (?R s') (binary item) b"
  proof (rule traverse_rehomes [where before = before and R = ?R])
    fix a :: "string \<times> binary_data" and s :: binary_store
    assume "a \<in> set (binary item)" "prefix before s"
    with assms(1) show "\<exists>b s'. duplicate_property w x a s = (Fulfilled b, s') \<and> prefix s s' \<and> ?R s' a b"
      using duplicate_property_rehomes [of a before s w x] by (simp add: list_all_iff)
  next
    fix s s' :: binary_store and a b :: "string \<times> binary_data"
    assume "?R s a b" "prefix s s'"
    then show "?R s' a b" by (auto intro: rehomed_stable)
  next
    show "prefix before s" by fact
  qed
  then obtain b s' where "traverse (duplicate_property w x) (binary item) s = (Fulfilled b, s')"
    "prefix s s'" "list_all2 (?R s') (binary item) b" by auto
  then show ?thesis
    by (auto simp: duplicate_item_def promise_then_def item_rehomed_def)
qed

lemma duplicateBinaryData_rehomes:
  assumes "resolvable before result"
  shows "\<exists>out after. duplicateBinaryData w x result before = (Fulfilled out, after) \<and>
           prefix before after \<and> list_all2 (list_all2 (item_rehomed w x before after)) result out"
proof -
  from assms have ok: "\<forall>batch \<in> set result. \<forall>item \<in> set batch.
      list_all (\<lambda>kv. fileId (snd kv) < length before) (binary item)"
    by (auto simp: resolvable_def references_def list_all_iff)
  have "\<exists>ys s'. traverse (traverse (duplicate_item w x)) result before = (Fulfilled ys, s') \<and>
          prefix before s' \<and> list_all2 (\<lambda>a b. list_all2 (item_rehomed w x before s') a b) result ys"
  proof (rule traverse_rehomes [where before = before and R = "\<lambda>s'. list_all2 (item_rehomed w x before s')"])
    fix batch s assume batch: "batch \<in> set result" and s: "prefix before s"
    show "\<exists>b s'. traverse (duplicate_item w x) batch s = (Fulfilled b, s') \<and> prefix s s' \<and>
            list_all2 (item_rehomed w x before s') batch b"
    proof (rule traverse_rehomes [where before = before])
      fix item s assume "item \<in> set batch" "prefix before s"
      with ok batch show "\<exists>b s'. duplicate_item w x item s = (Fulfilled b, s') \<and> prefix s s' \<and>
            item_rehomed w x before s' item b"
        by (intro duplicate_item_rehomes) auto
    next
      fix s s' a b assume "item_rehomed w x before s a b" "prefix s s'"
      then show "item_rehomed w x before s' a b" by (rule item_rehomed_stable)
    next
      show "prefix before s" by fact
    qed
  next
    fix s s' a b assume "list_all2 (item_rehomed w x before s) a b" "prefix s s'"
    then show "list_all2 (item_rehomed w x before s') a b"
      by (auto elim!: list_all2_mono intro: item_rehomed_stable)
  next
    show "prefix before before" by simp
  qed
  then show ?thesis by (simp add: duplicateBinaryData_def)
qed

text \<open>
  C1: when the nested execution succeeds, what \<open>executeWorkflow\<close> returns is the result of
  the duplication, called with the parent workflow's id, the parent's execution id and
  the sub-workflow's result, whatever the duplication is.  With the store's duplication as
  the spec describes it, and a result whose references resolve in the store the
  sub-workflow left, the call succeeds, the store keeps what it had, and the output is the
  result with every reference replaced by a duplicate: a new id, distinct from the
  original, owned by the parent's workflow and execution, with the original's bytes.
\<close>

theorem executeWorkflow_rehomes_binary_data:
  assumes "invoker workflowInfo (additionalData ctx) (workflow_id (workflow ctx)) items
             (settings (workflow ctx)) (node ctx) parentCallbackManager world =
           (Fulfilled result, world')"
  shows "executeWorkflow invoker duplicate ctx workflowInfo items parentCallbackManager world =
           duplicate (workflow_id (workflow ctx)) (executionId (additionalData ctx)) result world' \<and>
         (resolvable world' result \<longrightarrow>
            (\<exists>out after.
               executeWorkflow invoker duplicateBinaryData ctx workflowInfo items
                 parentCallbackManager world = (Fulfilled out, after) \<and>
               prefix world' after \<and>
               list_all2 (list_all2
                 (item_rehomed (workflow_id (workflow ctx)) (executionId (additionalData ctx))
                    world' after)) result out))"
  using assms duplicateBinaryData_rehomes [of world' result]
  by (simp add: executeWorkflow_def promise_then_def)

theorem executeWorkflow_rehomes_binary_data_witness:
  "executeWorkflow child_invoker duplicateBinaryData example_context () None None [] =
     (Fulfilled [[child_item\<lparr>binary :=
                    [(''attachment'', \<lparr>fileId = 1, mimeType = ''application/pdf'', fileSize = 8\<rparr>)]\<rparr>]],
      [child_file,
       \<lparr>owner_workflow = Some ''wf-parent'', owner_execution = Some ''exec-7'', content = ''%PDF-1.7''\<rparr>]) \<and>
   resolvable [child_file] [[child_item]]"
proof -
  have run: "child_invoker () (additionalData example_context) (workflow_id (workflow example_context))
               None (settings (workflow example_context)) (node example_context) None [] =
             (Fulfilled [[child_item]], [child_file])"
    by (simp add: child_invoker_def)
  have ids: "workflow_id (workflow example_context) = Some ''wf-parent''"
    "executionId (additionalData example_context) = Some ''exec-7''"
    by (simp_all add: example_context_def)
  have dup: "duplicateBinaryData (Some ''wf-parent'') (Some ''exec-7'') [[child_item]] [child_file] =
     (Fulfilled [[child_item\<lparr>binary :=
                    [(''attachment'', \<lparr>fileId = 1, mimeType = ''application/pdf'', fileSize = 8\<rparr>)]\<rparr>]],
      [child_file,
       \<lparr>owner_workflow = Some ''wf-parent'', owner_execution = Some ''exec-7'', content = ''%PDF-1.7''\<rparr>])"
    by (simp add: duplicateBinaryData_def duplicate_item_def duplicate_property_def
        duplicate_reference_def promise_then_def child_item_def child_file_def)
  have res: "resolvable [child_file] [[child_item]]"
    by (simp add: resolvable_def references_def child_item_def)
  from executeWorkflow_rehomes_binary_data
         [where invoker = child_invoker and ctx = example_context and workflowInfo = "()"
            and items = None and parentCallbackManager = None and world = "[]"
            and result = "[[child_item]]" and world' = "[child_file]"
            and duplicate = duplicateBinaryData, OF run]
       ids dup res
  show ?thesis by simp
qed

end
